theory Spec2Isabelle
  imports Complex_Main
begin

section \<open>JavaScript values\<close>

text \<open>
  The three relays of the repository (the Express route of \<^verbatim>\<open>server.js\<close> and the two
  serverless handlers) read the request body and the replies of axios as plain
  JavaScript values that came out of a JSON parser.  A value is modelled as such:
  \<^item> a number is the rational it denotes (every finite double is one; \<open>-0\<close> and \<open>0\<close>
    coincide, both are falsy and both print as \<open>0\<close>);
  \<^item> a string is a list of characters, a character standing for the UTF-16 code unit of
    the same number (code units 0 to 255);
  \<^item> an object is its list of own properties, read with \<open>map_of\<close>.
\<close>

datatype jsval =
    JUndefined
  | JNull
  | JBool bool
  | JNum rat
  | JStr string
  | JArr "jsval list"
  | JObj "(string \<times> jsval) list"

text \<open>
  What a \<^verbatim>\<open>catch (error)\<close> of the relays can receive: the three kinds of failure of
  axios (a reply outside 2xx, which sets \<^verbatim>\<open>error.response\<close>; a request without a reply,
  which sets only \<^verbatim>\<open>error.request\<close>; a request that was never sent, which sets neither),
  and the TypeError of the language itself, which has neither field.  The string is
  \<^verbatim>\<open>error.message\<close>.
\<close>

datatype js_error =
    AxiosResponse nat jsval
  | AxiosRequest string
  | AxiosSetup string
  | TypeError string

text \<open>
  Two conversions of the language are left to the runtime: the printing of a number
  (\<^verbatim>\<open>Number.prototype.toString\<close>) and whether the number a string converts to is
  greater than zero.  Every theorem below holds for every runtime.
\<close>

record js_runtime =
  number_to_string :: "rat \<Rightarrow> string"
  string_gt_zero :: "string \<Rightarrow> bool"

text \<open>Truthiness, as \<^verbatim>\<open>!x\<close>, \<^verbatim>\<open>x && y\<close> and \<^verbatim>\<open>x || y\<close> test it.\<close>

fun truthy :: "jsval \<Rightarrow> bool" where
  "truthy JUndefined = False"
| "truthy JNull = False"
| "truthy (JBool b) = b"
| "truthy (JNum q) = (q \<noteq> 0)"
| "truthy (JStr s) = (s \<noteq> [])"
| "truthy (JArr xs) = True"
| "truthy (JObj kv) = True"

text \<open>The decimal name of an array index.\<close>

fun show_nat :: "nat \<Rightarrow> string" where
  "show_nat n =
     (if n < 10 then [''0123456789'' ! n]
      else show_nat (n div 10) @ [''0123456789'' ! (n mod 10)])"

declare show_nat.simps [simp del]

definition index_of_key :: "nat \<Rightarrow> string \<Rightarrow> nat option" where
  "index_of_key n k = List.find (\<lambda>i. show_nat i = k) [0..<n]"

definition quote :: "string \<Rightarrow> string" where
  "quote k = [CHR 0x27] @ k @ [CHR 0x27]"

text \<open>
  Reading a property, \<^verbatim>\<open>v.k\<close> or \<^verbatim>\<open>v[0]\<close> (the key \<open>0\<close>).  On \<^verbatim>\<open>undefined\<close> and
  \<^verbatim>\<open>null\<close> the read throws; an array and a string have their length and their
  elements; any other key of any other value is \<^verbatim>\<open>undefined\<close>.  The keys the relays
  read (\<open>message\<close>, \<open>access_token\<close>, \<open>results\<close>, \<open>length\<close>, \<open>0\<close>, \<open>generated_text\<close>)
  are not names of a prototype, so only own properties matter.
\<close>

fun js_get :: "jsval \<Rightarrow> string \<Rightarrow> js_error + jsval" where
  "js_get JUndefined k =
     Inl (TypeError (''Cannot read properties of undefined (reading '' @ quote k @ '')''))"
| "js_get JNull k =
     Inl (TypeError (''Cannot read properties of null (reading '' @ quote k @ '')''))"
| "js_get (JObj kv) k = Inr (case map_of kv k of None \<Rightarrow> JUndefined | Some v \<Rightarrow> v)"
| "js_get (JArr xs) k =
     Inr (if k = ''length'' then JNum (of_nat (length xs))
          else (case index_of_key (length xs) k of
                  None \<Rightarrow> JUndefined
                | Some i \<Rightarrow> xs ! i))"
| "js_get (JStr s) k =
     Inr (if k = ''length'' then JNum (of_nat (length s))
          else (case index_of_key (length s) k of
                  None \<Rightarrow> JUndefined
                | Some i \<Rightarrow> JStr [s ! i]))"
| "js_get (JBool b) k = Inr JUndefined"
| "js_get (JNum q) k = Inr JUndefined"

text \<open>
  Conversion to a string, as a template literal does it.  An array joins its elements
  with commas, \<^verbatim>\<open>null\<close> and \<^verbatim>\<open>undefined\<close> elements printing as nothing; an object
  prints as \<open>[object Object]\<close>, unless it has an own property \<open>toString\<close>, which a
  JSON value cannot make callable: the conversion then throws.
\<close>

fun js_to_string :: "js_runtime \<Rightarrow> jsval \<Rightarrow> js_error + string"
  and js_join :: "js_runtime \<Rightarrow> jsval list \<Rightarrow> js_error + string" where
  "js_to_string rt JUndefined = Inr ''undefined''"
| "js_to_string rt JNull = Inr ''null''"
| "js_to_string rt (JBool b) = Inr (if b then ''true'' else ''false'')"
| "js_to_string rt (JNum q) = Inr (number_to_string rt q)"
| "js_to_string rt (JStr s) = Inr s"
| "js_to_string rt (JArr xs) = js_join rt xs"
| "js_to_string rt (JObj kv) =
     (if ''toString'' \<in> set (map fst kv)
      then Inl (TypeError ''Cannot convert object to primitive value'')
      else Inr ''[object Object]'')"
| "js_join rt [] = Inr ''''"
| "js_join rt (x # xs) =
     (case (if x = JUndefined \<or> x = JNull then Inr '''' else js_to_string rt x) of
        Inl e \<Rightarrow> Inl e
      | Inr s \<Rightarrow>
          (if xs = [] then Inr s
           else (case js_join rt xs of
                   Inl e \<Rightarrow> Inl e
                 | Inr t \<Rightarrow> Inr (s @ '','' @ t))))"

text \<open>The comparison \<^verbatim>\<open>v > 0\<close>.\<close>

fun js_gt_zero :: "js_runtime \<Rightarrow> jsval \<Rightarrow> js_error + bool" where
  "js_gt_zero rt JUndefined = Inr False"
| "js_gt_zero rt JNull = Inr False"
| "js_gt_zero rt (JBool b) = Inr b"
| "js_gt_zero rt (JNum q) = Inr (0 < q)"
| "js_gt_zero rt (JStr s) = Inr (string_gt_zero rt s)"
| "js_gt_zero rt v =
     (case js_to_string rt v of
        Inl e \<Rightarrow> Inl e
      | Inr s \<Rightarrow> Inr (string_gt_zero rt s))"

subsection \<open>Strings: the prompt-stripping expression and trim\<close>

text \<open>The characters \<^verbatim>\<open>.\<close> does not match, and the characters of \<^verbatim>\<open>\s\<close> and of trim.\<close>

definition is_line_terminator :: "char \<Rightarrow> bool" where
  "is_line_terminator c = (c = CHR 0x0A \<or> c = CHR 0x0D)"

definition is_space :: "char \<Rightarrow> bool" where
  "is_space c =
     (c = CHR 0x09 \<or> c = CHR 0x0A \<or> c = CHR 0x0B \<or> c = CHR 0x0C \<or> c = CHR 0x0D
      \<or> c = CHR 0x20 \<or> c = CHR 0xA0)"

fun strip_prefix :: "string \<Rightarrow> string \<Rightarrow> string option" where
  "strip_prefix [] s = Some s"
| "strip_prefix (p # ps) [] = None"
| "strip_prefix (p # ps) (c # cs) = (if p = c then strip_prefix ps cs else None)"

text \<open>
  \<^verbatim>\<open>.*?Assistant:\<close>: the lazy star stops at the first place where the marker
  follows, and cannot step over a line terminator.  The result is what follows the marker.
\<close>

fun lazy_until_marker :: "string \<Rightarrow> string option" where
  "lazy_until_marker [] = None"
| "lazy_until_marker (c # cs) =
     (case strip_prefix ''Assistant:'' (c # cs) of
        Some r \<Rightarrow> Some r
      | None \<Rightarrow> (if is_line_terminator c then None else lazy_until_marker cs))"

text \<open>\<^verbatim>\<open>s.replace(/^Human:.*?Assistant:\s*/, '')\<close>: without a match the string stays.\<close>

definition strip_prompt :: "string \<Rightarrow> string" where
  "strip_prompt s =
     (case strip_prefix ''Human:'' s of
        None \<Rightarrow> s
      | Some r \<Rightarrow>
          (case lazy_until_marker r of
             None \<Rightarrow> s
           | Some t \<Rightarrow> dropWhile is_space t))"

definition js_trim :: "string \<Rightarrow> string" where
  "js_trim s = rev (dropWhile is_space (rev (dropWhile is_space s)))"

section \<open>The host: configuration, requests, outbound calls\<close>

text \<open>
  \<^verbatim>\<open>process.env.IBM_API_KEY\<close> and \<^verbatim>\<open>process.env.PROJECT_ID\<close>: a string, or absent.
\<close>

record config =
  IBM_API_KEY :: "string option"
  PROJECT_ID :: "string option"

text \<open>What the handlers read of \<^verbatim>\<open>req\<close>, and what they send through \<^verbatim>\<open>res\<close>.\<close>

record request =
  "method" :: string
  body :: jsval

record http_response =
  status :: nat
  json :: jsval

text \<open>One call \<^verbatim>\<open>axios.post(url, data, {headers, timeout})\<close>.\<close>

record outbound =
  url :: string
  data :: jsval
  headers :: "(string \<times> string) list"
  timeout :: "nat option"

text \<open>
  What the network does with a call: a reply with a status and a parsed body, no reply
  (which covers the timeout), or a request that could not be sent.  The host is any
  function from calls to such outcomes, so a mocked upstream is a host.
\<close>

datatype http_outcome =
    Responded nat jsval
  | NoReply string
  | NotSent string

type_synonym host = "outbound \<Rightarrow> http_outcome"

text \<open>
  axios resolves to the reply when its status is 2xx (the relays read only
  \<^verbatim>\<open>response.data\<close>) and rejects otherwise.
\<close>

definition is_2xx :: "nat \<Rightarrow> bool" where
  "is_2xx st = (200 \<le> st \<and> st < 300)"

definition axios_post :: "host \<Rightarrow> outbound \<Rightarrow> js_error + jsval" where
  "axios_post h rq =
     (case h rq of
        Responded st d \<Rightarrow> (if is_2xx st then Inr d else Inl (AxiosResponse st d))
      | NoReply m \<Rightarrow> Inl (AxiosRequest m)
      | NotSent m \<Rightarrow> Inl (AxiosSetup m))"

definition env_truthy :: "string option \<Rightarrow> bool" where
  "env_truthy v = (case v of None \<Rightarrow> False | Some s \<Rightarrow> s \<noteq> [])"

definition env_string :: "string option \<Rightarrow> string" where
  "env_string v = (case v of None \<Rightarrow> ''undefined'' | Some s \<Rightarrow> s)"

definition env_value :: "string option \<Rightarrow> jsval" where
  "env_value v = (case v of None \<Rightarrow> JUndefined | Some s \<Rightarrow> JStr s)"

definition IAM_URL :: string where
  "IAM_URL = ''https://iam.cloud.ibm.com/identity/token''"

definition iam_form :: "config \<Rightarrow> string" where
  "iam_form cfg =
     ''grant_type=urn:ibm:params:oauth:grant-type:apikey&apikey='' @ env_string (IBM_API_KEY cfg)"

definition error_body :: "string \<Rightarrow> jsval" where
  "error_body m = JObj [(''error'', JStr m)]"

section \<open>The Express relay (server.js)\<close>

definition WATSONX_URL :: string where
  "WATSONX_URL =
     ''https://us-south.ml.cloud.ibm.com/ml/v1/text/generation?version=2023-05-29''"

text \<open>\<^verbatim>\<open>getIAMToken\<close>: one call; its catch logs and rethrows.\<close>

definition iam_request :: "config \<Rightarrow> outbound" where
  "iam_request cfg =
     \<lparr>url = IAM_URL, data = JStr (iam_form cfg),
      headers = [(''Content-Type'', ''application/x-www-form-urlencoded'')],
      timeout = Some 15000\<rparr>"

definition getIAMToken :: "config \<Rightarrow> host \<Rightarrow> (js_error + jsval) \<times> outbound list" where
  "getIAMToken cfg h =
     ((case axios_post h (iam_request cfg) of
         Inl e \<Rightarrow> Inl e
       | Inr d \<Rightarrow> js_get d ''access_token''),
      [iam_request cfg])"

definition prompt_input :: "string \<Rightarrow> string" where
  "prompt_input m =
     ''Human: '' @ m @ [CHR 0x0A, CHR 0x0A]
     @ ''Assistant: I'' @ [CHR 0x27] @ ''m LearnMate, your AI learning coach. I''
     @ [CHR 0x27] @ ''m here to help you with educational planning, finding resources, ''
     @ ''and answering questions about learning and development.''"

definition generation_payload :: "config \<Rightarrow> string \<Rightarrow> jsval" where
  "generation_payload cfg m =
     JObj [(''input'', JStr (prompt_input m)),
           (''parameters'',
              JObj [(''decoding_method'', JStr ''greedy''),
                    (''max_new_tokens'', JNum 500),
                    (''temperature'', JNum (7 / 10)),
                    (''stop_sequences'',
                       JArr [JStr ''Human:'', JStr ([CHR 0x0A, CHR 0x0A] @ ''Human:'')])]),
           (''model_id'', JStr ''ibm/granite-3-3-8b-instruct''),
           (''project_id'', env_value (PROJECT_ID cfg))]"

definition generation_request :: "config \<Rightarrow> string \<Rightarrow> string \<Rightarrow> outbound" where
  "generation_request cfg m tok =
     \<lparr>url = WATSONX_URL, data = generation_payload cfg m,
      headers = [(''Authorization'', ''Bearer '' @ tok),
                 (''Content-Type'', ''application/json''),
                 (''Accept'', ''application/json'')],
      timeout = Some 45000\<rparr>"

text \<open>\<^verbatim>\<open>responseText.replace(...).trim()\<close> on whatever \<open>generated_text\<close> holds.\<close>

fun replace_and_trim :: "jsval \<Rightarrow> js_error + string" where
  "replace_and_trim (JStr s) = Inr (js_trim (strip_prompt s))"
| "replace_and_trim JUndefined =
     Inl (TypeError (''Cannot read properties of undefined (reading '' @ quote ''replace'' @ '')''))"
| "replace_and_trim JNull =
     Inl (TypeError (''Cannot read properties of null (reading '' @ quote ''replace'' @ '')''))"
| "replace_and_trim v = Inl (TypeError ''responseText.replace is not a function'')"

text \<open>
  The text taken from \<^verbatim>\<open>aiResponse.data\<close>: the empty string when there are no
  results, the stripped and trimmed \<open>generated_text\<close> of the first result otherwise.
\<close>

definition extract_text :: "js_runtime \<Rightarrow> jsval \<Rightarrow> js_error + string" where
  "extract_text rt d =
     (case js_get d ''results'' of
        Inl e \<Rightarrow> Inl e
      | Inr results \<Rightarrow>
          (if \<not> truthy results then Inr []
           else (case js_get results ''length'' of
                   Inl e \<Rightarrow> Inl e
                 | Inr len \<Rightarrow>
                     (case js_gt_zero rt len of
                        Inl e \<Rightarrow> Inl e
                      | Inr positive \<Rightarrow>
                          (if \<not> positive then Inr []
                           else (case js_get results ''0'' of
                                   Inl e \<Rightarrow> Inl e
                                 | Inr first \<Rightarrow>
                                     (case js_get first ''generated_text'' of
                                        Inl e \<Rightarrow> Inl e
                                      | Inr g \<Rightarrow> replace_and_trim g)))))))"

definition fallback_text :: string where
  "fallback_text =
     ''I'' @ [CHR 0x27] @ ''m sorry, I couldn'' @ [CHR 0x27]
     @ ''t generate a response. Please try again.''"

text \<open>\<^verbatim>\<open>formattedResponse\<close>, with \<^verbatim>\<open>responseText || "I'm sorry, ..."\<close> as its content.\<close>

definition formattedResponse :: "string \<Rightarrow> jsval" where
  "formattedResponse responseText =
     JObj [(''choices'',
            JArr [JObj [(''index'', JNum 0),
                        (''message'',
                           JObj [(''content'',
                                    JStr (if responseText = [] then fallback_text
                                          else responseText)),
                                 (''role'', JStr ''assistant'')])]])]"

text \<open>
  From \<^verbatim>\<open>aiResponse.data\<close> to \<^verbatim>\<open>formattedResponse\<close>: the part of the route the
  specification calls the Response Normalizer.
\<close>

definition normalize :: "js_runtime \<Rightarrow> jsval \<Rightarrow> js_error + jsval" where
  "normalize rt d =
     (case extract_text rt d of
        Inl e \<Rightarrow> Inl e
      | Inr responseText \<Rightarrow> Inr (formattedResponse responseText))"

text \<open>The body of the \<^verbatim>\<open>try\<close>: a response, or the error thrown, and the calls made.\<close>

definition chat_try ::
  "config \<Rightarrow> js_runtime \<Rightarrow> host \<Rightarrow> request \<Rightarrow> (js_error + http_response) \<times> outbound list" where
  "chat_try cfg rt h req =
     (case js_get (body req) ''message'' of
        Inl e \<Rightarrow> (Inl e, [])
      | Inr userMessage \<Rightarrow>
          if \<not> truthy userMessage then
            (Inr \<lparr>status = 400, json = error_body ''Message cannot be empty.''\<rparr>, [])
          else if \<not> env_truthy (IBM_API_KEY cfg) then
            (Inr \<lparr>status = 500,
                  json = error_body ''Server configuration error: API key missing''\<rparr>, [])
          else if \<not> env_truthy (PROJECT_ID cfg) then
            (Inr \<lparr>status = 500,
                  json = error_body (''Server configuration error: Project ID missing. ''
                                     @ ''Please add PROJECT_ID to your .env file'')\<rparr>, [])
          else
            (case getIAMToken cfg h of
               (Inl e, calls) \<Rightarrow> (Inl e, calls)
             | (Inr token, calls) \<Rightarrow>
                 (case js_to_string rt userMessage of
                    Inl e \<Rightarrow> (Inl e, calls)
                  | Inr m \<Rightarrow>
                      (case js_to_string rt token of
                         Inl e \<Rightarrow> (Inl e, calls)
                       | Inr tok \<Rightarrow>
                           (case axios_post h (generation_request cfg m tok) of
                              Inl e \<Rightarrow> (Inl e, calls @ [generation_request cfg m tok])
                            | Inr d \<Rightarrow>
                                (case normalize rt d of
                                   Inl e \<Rightarrow> (Inl e, calls @ [generation_request cfg m tok])
                                 | Inr formatted \<Rightarrow>
                                     (Inr \<lparr>status = 200, json = formatted\<rparr>,
                                      calls @ [generation_request cfg m tok])))))))"

text \<open>The \<^verbatim>\<open>catch\<close>: three branches, on \<^verbatim>\<open>error.response\<close>, \<^verbatim>\<open>error.request\<close>, neither.\<close>

fun chat_catch :: "js_error \<Rightarrow> http_response" where
  "chat_catch (AxiosResponse st d) =
     \<lparr>status = st,
      json = JObj [(''error'', JStr ''Failed to get response from AI''),
                   (''details'', d),
                   (''status'', JNum (of_nat st))]\<rparr>"
| "chat_catch (AxiosRequest m) =
     \<lparr>status = 500,
      json = JObj [(''error'',
                      JStr ''Connection timeout - unable to reach IBM Watsonx.ai service''),
                   (''suggestion'',
                      JStr ''Please check your internet connection and try again'')]\<rparr>"
| "chat_catch (AxiosSetup m) =
     \<lparr>status = 500,
      json = JObj [(''error'', JStr ''Failed to set up request to AI service''),
                   (''details'', JStr m)]\<rparr>"
| "chat_catch (TypeError m) =
     \<lparr>status = 500,
      json = JObj [(''error'', JStr ''Failed to set up request to AI service''),
                   (''details'', JStr m)]\<rparr>"

text \<open>
  The callback of \<^verbatim>\<open>app.post('/api/chat', ...)\<close>: the response it sends and the
  outbound calls it made, in order.  Express runs it for POST requests only.
\<close>

definition express_chat ::
  "config \<Rightarrow> js_runtime \<Rightarrow> host \<Rightarrow> request \<Rightarrow> http_response \<times> outbound list" where
  "express_chat cfg rt h req =
     (case chat_try cfg rt h req of
        (Inr res, calls) \<Rightarrow> (res, calls)
      | (Inl e, calls) \<Rightarrow> (chat_catch e, calls))"

subsection \<open>What server.js does with a request for /api/chat\<close>

text \<open>
  The file registers, in this order: \<^verbatim>\<open>express.json()\<close>, whose result is the body of
  the request record; \<^verbatim>\<open>express.static('public')\<close>, which answers a GET or a HEAD when
  it finds a file for the path and passes every other request on; the routes, of which
  only \<^verbatim>\<open>app.post('/api/chat', ...)\<close> has this path; and a last \<^verbatim>\<open>app.use\<close>, which
  answers OPTIONS with \<^verbatim>\<open>res.sendStatus(200)\<close> and passes the rest on.  A request that
  nothing answered gets the 404 of Express.  The file has no 405.

  An answer is the response of the callback, a static file, a bare status sent by
  \<^verbatim>\<open>sendStatus\<close>, or the status of the final handler of Express.  Whether the static
  middleware finds a file is the argument \<open>static_hit\<close>.
\<close>

datatype served =
    Relay http_response
  | StaticFile
  | SendStatus nat
  | FinalHandler nat

definition server_api_chat ::
  "config \<Rightarrow> js_runtime \<Rightarrow> host \<Rightarrow> bool \<Rightarrow> request \<Rightarrow> served \<times> outbound list" where
  "server_api_chat cfg rt h static_hit req =
     (if (method req = ''GET'' \<or> method req = ''HEAD'') \<and> static_hit then (StaticFile, [])
      else if method req = ''POST'' then
        (case express_chat cfg rt h req of (res, calls) \<Rightarrow> (Relay res, calls))
      else if method req = ''OPTIONS'' then (SendStatus 200, [])
      else (FinalHandler 404, []))"

text \<open>The status of an answer, where the file or Express fixes it.\<close>

fun served_status :: "served \<Rightarrow> nat option" where
  "served_status (Relay res) = Some (status res)"
| "served_status StaticFile = None"
| "served_status (SendStatus st) = Some st"
| "served_status (FinalHandler st) = Some st"

section \<open>The serverless relays (api/chat.js, in its two module forms)\<close>

definition SCORING_URL :: string where
  "SCORING_URL =
     ''https://us-south.ml.cloud.ibm.com/ml/v4/deployments/''
     @ ''6aa5c265-8965-4028-b9bc-64027944f790/ai_service?version=2021-05-01''"

definition SCORING_URL_exports :: string where
  "SCORING_URL_exports =
     ''https://us-south.ml.cloud.ibm.com/ml/v4/deployments/''
     @ ''d524d8ac-2f27-4885-884c-c2c146b88ef1/ai_service?version=2021-05-01''"

definition token_request :: "config \<Rightarrow> outbound" where
  "token_request cfg =
     \<lparr>url = IAM_URL, data = JStr (iam_form cfg),
      headers = [(''Content-Type'', ''application/x-www-form-urlencoded'')],
      timeout = None\<rparr>"

definition scoring_request :: "string \<Rightarrow> config \<Rightarrow> jsval \<Rightarrow> string \<Rightarrow> outbound" where
  "scoring_request scoring cfg userMessage tok =
     \<lparr>url = scoring,
      data = JObj [(''project_id'', env_value (PROJECT_ID cfg)),
                   (''messages'',
                      JArr [JObj [(''content'', userMessage), (''role'', JStr ''user'')]])],
      headers = [(''Authorization'', ''Bearer '' @ tok),
                 (''Content-Type'', ''application/json'')],
      timeout = None\<rparr>"

text \<open>
  The body of the \<^verbatim>\<open>try\<close> of the handler.  The two files differ in the scoring
  address only, which is the first argument.
\<close>

definition handler_try ::
  "string \<Rightarrow> config \<Rightarrow> js_runtime \<Rightarrow> host \<Rightarrow> request
     \<Rightarrow> (js_error + http_response) \<times> outbound list" where
  "handler_try scoring cfg rt h req =
     (case js_get (body req) ''message'' of
        Inl e \<Rightarrow> (Inl e, [])
      | Inr userMessage \<Rightarrow>
          if \<not> truthy userMessage then
            (Inr \<lparr>status = 400, json = error_body ''Message cannot be empty.''\<rparr>, [])
          else
            (case axios_post h (token_request cfg) of
               Inl e \<Rightarrow> (Inl e, [token_request cfg])
             | Inr tokenData \<Rightarrow>
                 (case js_get tokenData ''access_token'' of
                    Inl e \<Rightarrow> (Inl e, [token_request cfg])
                  | Inr token \<Rightarrow>
                      (case js_to_string rt token of
                         Inl e \<Rightarrow> (Inl e, [token_request cfg])
                       | Inr tok \<Rightarrow>
                           (case axios_post h (scoring_request scoring cfg userMessage tok) of
                              Inl e \<Rightarrow>
                                (Inl e,
                                 [token_request cfg,
                                  scoring_request scoring cfg userMessage tok])
                            | Inr d \<Rightarrow>
                                (Inr \<lparr>status = 200, json = d\<rparr>,
                                 [token_request cfg,
                                  scoring_request scoring cfg userMessage tok]))))))"

definition relay ::
  "string \<Rightarrow> config \<Rightarrow> js_runtime \<Rightarrow> host \<Rightarrow> request \<Rightarrow> http_response \<times> outbound list" where
  "relay scoring cfg rt h req =
     (if method req \<noteq> ''POST'' then
        (\<lparr>status = 405, json = error_body ''Method Not Allowed''\<rparr>, [])
      else
        (case handler_try scoring cfg rt h req of
           (Inr res, calls) \<Rightarrow> (res, calls)
         | (Inl e, calls) \<Rightarrow>
             (\<lparr>status = 500, json = error_body ''An internal server error occurred.''\<rparr>,
              calls)))"

text \<open>\<^verbatim>\<open>export default async function handler\<close> of src/api/chat.js.\<close>

definition handler ::
  "config \<Rightarrow> js_runtime \<Rightarrow> host \<Rightarrow> request \<Rightarrow> http_response \<times> outbound list" where
  "handler = relay SCORING_URL"

text \<open>The \<^verbatim>\<open>module.exports\<close> form of the same file.\<close>

definition handler_exports ::
  "config \<Rightarrow> js_runtime \<Rightarrow> host \<Rightarrow> request \<Rightarrow> http_response \<times> outbound list" where
  "handler_exports = relay SCORING_URL_exports"

section \<open>The words of the specification\<close>

text \<open>
  The canonical envelope of the specification,
  \<^verbatim>\<open>{ choices: [ { index: 0, message: { content, role: "assistant" } } ] }\<close>,
  as a value of its content.
\<close>

definition ChatResponse :: "string \<Rightarrow> jsval" where
  "ChatResponse content =
     JObj [(''choices'',
            JArr [JObj [(''index'', JNum 0),
                        (''message'',
                           JObj [(''content'', JStr content),
                                 (''role'', JStr ''assistant'')])]])]"

text \<open>
  Whether a body is such an envelope, decided by reading \<^verbatim>\<open>choices[0].message.content\<close>
  the way the page does and comparing the body with the envelope of that content.
\<close>

definition envelope_content :: "jsval \<Rightarrow> string option" where
  "envelope_content v =
     (case js_get v ''choices'' of
        Inr choices \<Rightarrow>
          (case js_get choices ''0'' of
             Inr first \<Rightarrow>
               (case js_get first ''message'' of
                  Inr message \<Rightarrow>
                    (case js_get message ''content'' of
                       Inr (JStr c) \<Rightarrow> Some c
                     | _ \<Rightarrow> None)
                | _ \<Rightarrow> None)
           | _ \<Rightarrow> None)
      | _ \<Rightarrow> None)"

definition is_ChatResponse :: "jsval \<Rightarrow> bool" where
  "is_ChatResponse v =
     (case envelope_content v of None \<Rightarrow> False | Some c \<Rightarrow> v = ChatResponse c)"

text \<open>The fallback string as the specification quotes it.\<close>

definition spec_fallback_text :: string where
  "spec_fallback_text =
     ''I couldn'' @ [CHR 0x27] @ ''t generate a response. Please try again.''"

text \<open>
  \<^verbatim>\<open>data.results[0].generated_text\<close> of an upstream reply, when that path leads to a
  string.
\<close>

definition generated_text :: "jsval \<Rightarrow> string option" where
  "generated_text d =
     (case js_get d ''results'' of
        Inr results \<Rightarrow>
          (case js_get results ''0'' of
             Inr first \<Rightarrow>
               (case js_get first ''generated_text'' of
                  Inr (JStr g) \<Rightarrow> Some g
                | _ \<Rightarrow> None)
           | _ \<Rightarrow> None)
      | _ \<Rightarrow> None)"

text \<open>
  The reply shapes the specification lists all fall under this one: an object without
  \<open>results\<close> (so the chat-style \<open>choices\<close> shape and the bare \<open>message\<close> shape), with
  an empty \<open>results\<close> array, or with a first result that carries a string
  \<open>generated_text\<close>.
\<close>

definition listed_shape :: "jsval \<Rightarrow> bool" where
  "listed_shape d =
     (case d of
        JObj kv \<Rightarrow>
          (case map_of kv ''results'' of
             None \<Rightarrow> True
           | Some (JArr []) \<Rightarrow> True
           | Some (JArr (JObj r # rest)) \<Rightarrow>
               (case map_of r ''generated_text'' of Some (JStr g) \<Rightarrow> True | _ \<Rightarrow> False)
           | _ \<Rightarrow> False)
      | _ \<Rightarrow> False)"

text \<open>A call that failed: a reply outside 2xx, no reply, or a request never sent.\<close>

fun failed :: "http_outcome \<Rightarrow> bool" where
  "failed (Responded st d) = (\<not> is_2xx st)"
| "failed (NoReply m) = True"
| "failed (NotSent m) = True"

section \<open>Mocked upstreams for the concrete runs\<close>

text \<open>A host that answers the identity endpoint one way and every other address another.\<close>

definition mock_host :: "http_outcome \<Rightarrow> http_outcome \<Rightarrow> host" where
  "mock_host iam ai rq = (if url rq = IAM_URL then iam else ai)"


text \<open>
  The runtime of the concrete runs, none of which prints a number or compares a string
  with zero.
\<close>

definition test_runtime :: js_runtime where
  "test_runtime = \<lparr>number_to_string = (\<lambda>q. ''0''), string_gt_zero = (\<lambda>s. False)\<rparr>"

definition test_config :: config where
  "test_config = \<lparr>IBM_API_KEY = Some ''key'', PROJECT_ID = Some ''project''\<rparr>"

definition no_key_config :: config where
  "no_key_config = \<lparr>IBM_API_KEY = None, PROJECT_ID = Some ''project''\<rparr>"

definition post_message :: "jsval \<Rightarrow> request" where
  "post_message v = \<lparr>method = ''POST'', body = JObj [(''message'', v)]\<rparr>"

definition token_reply :: http_outcome where
  "token_reply = Responded 200 (JObj [(''access_token'', JStr ''T'')])"

definition text_reply :: "string \<Rightarrow> http_outcome" where
  "text_reply g = Responded 200 (JObj [(''results'', JArr [JObj [(''generated_text'', JStr g)]])])"

section \<open>Facts about the JavaScript operations\<close>


lemma show_nat_zero: "show_nat 0 = ''0''"
  by (simp add: show_nat.simps)

lemma index_of_key_zero: "index_of_key (Suc n) ''0'' = Some 0"
  by (simp add: index_of_key_def upt_conv_Cons show_nat_zero del: upt_Suc)

lemma index_of_key_none: "index_of_key 0 k = None"
  by (simp add: index_of_key_def)

lemma js_get_first: "js_get (JArr (x # xs)) ''0'' = Inr x"
  by (simp add: index_of_key_zero)

lemma js_get_no_first: "js_get (JArr []) ''0'' = Inr JUndefined"
  by (simp add: index_of_key_none)

lemma js_get_error: "js_get v k = Inl e \<Longrightarrow> \<exists>m. e = TypeError m"
  by (cases v) auto

lemma js_to_string_error:
  "js_to_string rt v = Inl e \<Longrightarrow> \<exists>m. e = TypeError m"
  "js_join rt xs = Inl e \<Longrightarrow> \<exists>m. e = TypeError m"
  by (induction rt v and rt xs arbitrary: e and e rule: js_to_string_js_join.induct)
     (auto split: if_splits sum.splits)

lemma js_gt_zero_error: "js_gt_zero rt v = Inl e \<Longrightarrow> \<exists>m. e = TypeError m"
  by (cases v) (auto split: sum.splits if_splits dest: js_to_string_error)

lemma replace_and_trim_error: "replace_and_trim v = Inl e \<Longrightarrow> \<exists>m. e = TypeError m"
  by (cases v) auto

lemma extract_text_error: "extract_text rt d = Inl e \<Longrightarrow> \<exists>m. e = TypeError m"
  unfolding extract_text_def
  by (auto split: sum.splits if_splits
           dest: js_get_error js_gt_zero_error replace_and_trim_error)

lemma normalize_error: "normalize rt d = Inl e \<Longrightarrow> \<exists>m. e = TypeError m"
  unfolding normalize_def
  by (auto split: sum.splits dest: extract_text_error)

lemma axios_post_error:
  "axios_post h rq = Inl e \<Longrightarrow>
     (\<exists>st d. e = AxiosResponse st d \<and> h rq = Responded st d \<and> \<not> is_2xx st)
     \<or> (\<exists>m. e = AxiosRequest m \<and> h rq = NoReply m)
     \<or> (\<exists>m. e = AxiosSetup m \<and> h rq = NotSent m)"
  unfolding axios_post_def is_2xx_def
  by (auto split: http_outcome.splits if_splits)

lemma formattedResponse_ChatResponse:
  "formattedResponse t = ChatResponse (if t = [] then fallback_text else t)"
  by (simp add: formattedResponse_def ChatResponse_def)

lemma fallback_text_not_empty: "fallback_text \<noteq> []"
  by (simp add: fallback_text_def)

lemma envelope_content_ChatResponse: "envelope_content (ChatResponse c) = Some c"
  by (simp add: envelope_content_def ChatResponse_def index_of_key_zero)

lemma is_ChatResponse_iff: "is_ChatResponse v \<longleftrightarrow> (\<exists>c. v = ChatResponse c)"
  by (auto simp: is_ChatResponse_def envelope_content_ChatResponse split: option.splits)

lemma falsy_values:
  "\<not> truthy v \<longleftrightarrow> v = JUndefined \<or> v = JNull \<or> v = JBool False \<or> v = JNum 0 \<or> v = JStr []"
  by (cases v) auto

section \<open>Facts about the Express route\<close>


lemma listed_shape_cases:
  assumes "listed_shape d"
  obtains (absent) kv where "d = JObj kv" and "map_of kv ''results'' = None"
    | (none) kv where "d = JObj kv" and "map_of kv ''results'' = Some (JArr [])"
    | (generated) kv r rest g where "d = JObj kv"
        and "map_of kv ''results'' = Some (JArr (JObj r # rest))"
        and "map_of r ''generated_text'' = Some (JStr g)"
proof -
  from assms obtain kv where d: "d = JObj kv"
    by (cases d) (simp_all add: listed_shape_def)
  show thesis
  proof (cases "map_of kv ''results''")
    case None
    with d show thesis by (rule absent)
  next
    case (Some v)
    with assms d obtain xs where v: "v = JArr xs"
      by (cases v) (simp_all add: listed_shape_def)
    show thesis
    proof (cases xs)
      case Nil
      with d Some v show thesis by (simp add: none)
    next
      case (Cons x rest)
      with assms d Some v obtain r where x: "x = JObj r"
        by (cases x) (simp_all add: listed_shape_def)
      from assms d Some v Cons x obtain w where w: "map_of r ''generated_text'' = Some w"
        by (cases "map_of r ''generated_text''") (simp_all add: listed_shape_def)
      with assms d Some v Cons x obtain g where "w = JStr g"
        by (cases w) (simp_all add: listed_shape_def)
      with d Some v Cons x w show thesis by (simp add: generated)
    qed
  qed
qed

lemma extract_text_listed_shape:
  assumes "listed_shape d"
  shows "extract_text rt d
           = Inr (case generated_text d of None \<Rightarrow> [] | Some g \<Rightarrow> js_trim (strip_prompt g))"
  using assms
proof (cases rule: listed_shape_cases)
  case (absent kv)
  then show ?thesis
    by (simp add: extract_text_def generated_text_def)
next
  case (none kv)
  then show ?thesis
    by (simp add: extract_text_def generated_text_def index_of_key_none)
next
  case (generated kv r rest g)
  then show ?thesis
    by (simp add: extract_text_def generated_text_def index_of_key_zero)
qed

lemma js_trim_empty: "js_trim [] = []"
  by (simp add: js_trim_def)

lemma strip_prompt_empty: "strip_prompt [] = []"
  by (simp add: strip_prompt_def)

lemma extract_text_generated:
  assumes "extract_text rt d = Inr t" and "t \<noteq> []"
  shows "\<exists>g. generated_text d = Some g \<and> g \<noteq> [] \<and> t = js_trim (strip_prompt g)"
proof -
  from assms obtain results first g where
    r: "js_get d ''results'' = Inr results" and
    f: "js_get results ''0'' = Inr first" and
    g: "js_get first ''generated_text'' = Inr g" and
    t: "replace_and_trim g = Inr t"
    unfolding extract_text_def
    by (auto split: sum.splits if_splits)
  from t obtain s where s: "g = JStr s" "t = js_trim (strip_prompt s)"
    by (cases g) auto
  with assms(2) have "s \<noteq> []"
    by (auto simp: js_trim_empty strip_prompt_empty)
  with r f g s show ?thesis
    by (simp add: generated_text_def)
qed

lemma chat_try_error_status:
  assumes "chat_try cfg rt h req = (Inl e, calls)"
  shows "\<not> is_2xx (status (chat_catch e))"
proof -
  from assms have
    "(\<exists>m. e = TypeError m) \<or> (\<exists>rq. axios_post h rq = Inl e)"
    unfolding chat_try_def getIAMToken_def
    by (auto split: sum.splits if_splits prod.splits
             dest: js_get_error js_to_string_error normalize_error)
  then show ?thesis
    by (auto simp: is_2xx_def dest!: axios_post_error)
qed

lemma chat_try_success:
  assumes "chat_try cfg rt h req = (Inr res, calls)" and "status res = 200"
  shows "\<exists>m tok st d t.
           calls = [iam_request cfg, generation_request cfg m tok]
         \<and> h (generation_request cfg m tok) = Responded st d
         \<and> extract_text rt d = Inr t
         \<and> res = \<lparr>status = 200, json = formattedResponse t\<rparr>"
  using assms
  unfolding chat_try_def getIAMToken_def normalize_def axios_post_def is_2xx_def
  by (fastforce split: sum.splits if_splits prod.splits http_outcome.splits)

lemma chat_catch_error_field: "\<exists>msg. js_get (json (chat_catch e)) ''error'' = Inr (JStr msg)"
  by (cases e) simp_all

lemma chat_try_response:
  assumes "chat_try cfg rt h req = (Inr res, calls)"
  shows "status res = 200 \<or> (\<exists>msg. json res = error_body msg)"
  using assms
  unfolding chat_try_def
  by (auto split: sum.splits if_splits prod.splits)

lemma express_chat_error_field:
  assumes "status (fst (express_chat cfg rt h req)) \<noteq> 200"
  shows "\<exists>msg. js_get (json (fst (express_chat cfg rt h req))) ''error'' = Inr (JStr msg)"
proof (cases "chat_try cfg rt h req")
  case (Pair outcome calls)
  show ?thesis
  proof (cases outcome)
    case (Inl e)
    with Pair show ?thesis
      by (simp add: express_chat_def chat_catch_error_field)
  next
    case (Inr res)
    with Pair assms have "\<exists>msg. json res = error_body msg"
      using chat_try_response [of cfg rt h req res calls]
      by (auto simp: express_chat_def)
    with Pair Inr show ?thesis
      by (auto simp: express_chat_def error_body_def)
  qed
qed

lemma relay_error_body:
  assumes "status (fst (relay scoring cfg rt h req)) \<noteq> 200"
  shows "\<exists>msg. json (fst (relay scoring cfg rt h req)) = error_body msg"
  using assms
  unfolding relay_def handler_try_def
  by (auto split: sum.splits if_splits prod.splits)

lemma express_inference_error:
  assumes "js_get (body req) ''message'' = Inr (JStr m)" and "m \<noteq> []"
    and "env_truthy (IBM_API_KEY cfg)" and "env_truthy (PROJECT_ID cfg)"
    and "h (iam_request cfg) = Responded st0 (JObj tk)" and "is_2xx st0"
    and "map_of tk ''access_token'' = Some (JStr tok)"
    and "axios_post h (generation_request cfg m tok) = Inl err"
  shows "express_chat cfg rt h req
           = (chat_catch err, [iam_request cfg, generation_request cfg m tok])"
  using assms
  by (simp add: express_chat_def chat_try_def getIAMToken_def axios_post_def)

lemma relay_inference_error:
  assumes "method req = ''POST''"
    and "js_get (body req) ''message'' = Inr (JStr m)" and "m \<noteq> []"
    and "h (token_request cfg) = Responded st0 (JObj tk)" and "is_2xx st0"
    and "map_of tk ''access_token'' = Some (JStr tok)"
    and "failed (h (scoring_request scoring cfg (JStr m) tok))"
  shows "relay scoring cfg rt h req
           = (\<lparr>status = 500, json = error_body ''An internal server error occurred.''\<rparr>,
              [token_request cfg, scoring_request scoring cfg (JStr m) tok])"
proof -
  from assms(7) obtain err where
    "axios_post h (scoring_request scoring cfg (JStr m) tok) = Inl err"
    by (cases "h (scoring_request scoring cfg (JStr m) tok)") (simp_all add: axios_post_def)
  with assms show ?thesis
    by (simp add: relay_def handler_try_def axios_post_def)
qed

section \<open>The claims\<close>

text \<open>
  C1, as the code has it.  Take a request with a non-empty string message, a token
  acquired and a 2xx inference reply.  The Express route answers it with 200 and the
  canonical envelope whenever the reply is an object without \<open>results\<close>, with an empty
  \<open>results\<close> array, or with a string \<open>generated_text\<close> in its first result; the
  content is the stripped and trimmed text, or the fallback string when there is none.
  The serverless handler, in both module forms, answers it with 200 and the upstream body
  as it came, whatever its shape.
\<close>

theorem successful_relay_response:
  assumes "js_get (body req) ''message'' = Inr (JStr m)" and "m \<noteq> []"
    and "is_2xx st0" and "map_of tk ''access_token'' = Some (JStr tok)" and "is_2xx st"
  shows "(env_truthy (IBM_API_KEY cfg) \<and> env_truthy (PROJECT_ID cfg)
          \<and> h (iam_request cfg) = Responded st0 (JObj tk)
          \<and> h (generation_request cfg m tok) = Responded st d \<and> listed_shape d \<longrightarrow>
            express_chat cfg rt h req
              = (\<lparr>status = 200,
                  json = ChatResponse
                           (case generated_text d of
                              None \<Rightarrow> fallback_text
                            | Some g \<Rightarrow>
                                if js_trim (strip_prompt g) = [] then fallback_text
                                else js_trim (strip_prompt g))\<rparr>,
                 [iam_request cfg, generation_request cfg m tok]))
       \<and> (method req = ''POST'' \<and> h (token_request cfg) = Responded st0 (JObj tk)
          \<and> h (scoring_request SCORING_URL cfg (JStr m) tok) = Responded st d \<longrightarrow>
            handler cfg rt h req
              = (\<lparr>status = 200, json = d\<rparr>,
                 [token_request cfg, scoring_request SCORING_URL cfg (JStr m) tok]))
       \<and> (method req = ''POST'' \<and> h (token_request cfg) = Responded st0 (JObj tk)
          \<and> h (scoring_request SCORING_URL_exports cfg (JStr m) tok) = Responded st d \<longrightarrow>
            handler_exports cfg rt h req
              = (\<lparr>status = 200, json = d\<rparr>,
                 [token_request cfg, scoring_request SCORING_URL_exports cfg (JStr m) tok]))"
proof (intro conjI impI)
  assume a: "env_truthy (IBM_API_KEY cfg) \<and> env_truthy (PROJECT_ID cfg)
          \<and> h (iam_request cfg) = Responded st0 (JObj tk)
          \<and> h (generation_request cfg m tok) = Responded st d \<and> listed_shape d"
  then have "extract_text rt d
           = Inr (case generated_text d of None \<Rightarrow> [] | Some g \<Rightarrow> js_trim (strip_prompt g))"
    by (simp add: extract_text_listed_shape)
  with a assms show "express_chat cfg rt h req
              = (\<lparr>status = 200,
                  json = ChatResponse
                           (case generated_text d of
                              None \<Rightarrow> fallback_text
                            | Some g \<Rightarrow>
                                if js_trim (strip_prompt g) = [] then fallback_text
                                else js_trim (strip_prompt g))\<rparr>,
                 [iam_request cfg, generation_request cfg m tok])"
    by (simp add: express_chat_def chat_try_def getIAMToken_def axios_post_def is_2xx_def
                  normalize_def formattedResponse_ChatResponse
             split: option.splits)
next
  assume "method req = ''POST'' \<and> h (token_request cfg) = Responded st0 (JObj tk)
          \<and> h (scoring_request SCORING_URL cfg (JStr m) tok) = Responded st d"
  with assms show "handler cfg rt h req
              = (\<lparr>status = 200, json = d\<rparr>,
                 [token_request cfg, scoring_request SCORING_URL cfg (JStr m) tok])"
    by (simp add: handler_def relay_def handler_try_def axios_post_def is_2xx_def)
next
  assume "method req = ''POST'' \<and> h (token_request cfg) = Responded st0 (JObj tk)
          \<and> h (scoring_request SCORING_URL_exports cfg (JStr m) tok) = Responded st d"
  with assms show "handler_exports cfg rt h req
              = (\<lparr>status = 200, json = d\<rparr>,
                 [token_request cfg, scoring_request SCORING_URL_exports cfg (JStr m) tok])"
    by (simp add: handler_exports_def relay_def handler_try_def axios_post_def is_2xx_def)
qed

text \<open>
  The theorem at a chat-style reply: the Express route wraps the fallback string, the
  serverless handler passes the reply through.
\<close>

theorem successful_relay_response_witness:
  "express_chat test_config test_runtime
      (mock_host token_reply (Responded 200 (JObj [(''choices'', JArr [JObj [(''message'', JObj [(''content'', JStr ''Z'')])]])])))
      (post_message (JStr ''hi''))
     = (\<lparr>status = 200, json = ChatResponse fallback_text\<rparr>,
        [iam_request test_config, generation_request test_config ''hi'' ''T''])
   \<and> handler test_config test_runtime
      (mock_host token_reply (Responded 200 (JObj [(''choices'', JArr [JObj [(''message'', JObj [(''content'', JStr ''Z'')])]])])))
      (post_message (JStr ''hi''))
     = (\<lparr>status = 200,
         json = JObj [(''choices'', JArr [JObj [(''message'', JObj [(''content'', JStr ''Z'')])]])]\<rparr>,
        [token_request test_config, scoring_request SCORING_URL test_config (JStr ''hi'') ''T''])"
  using successful_relay_response
          [where req = "post_message (JStr ''hi'')" and m = "''hi''" and cfg = test_config
             and rt = test_runtime
             and h = "mock_host token_reply (Responded 200 (JObj [(''choices'', JArr [JObj [(''message'', JObj [(''content'', JStr ''Z'')])]])]))"
             and ?st0.0 = 200 and tk = "[(''access_token'', JStr ''T'')]" and tok = "''T''"
             and st = 200
             and d = "JObj [(''choices'', JArr [JObj [(''message'', JObj [(''content'', JStr ''Z'')])]])]"]
  by (simp add: post_message_def test_config_def env_truthy_def mock_host_def token_reply_def
        iam_request_def token_request_def generation_request_def scoring_request_def
        IAM_URL_def WATSONX_URL_def SCORING_URL_def is_2xx_def listed_shape_def
        generated_text_def)

text \<open>
  C1 as stated fails on the serverless handler: a completion-style reply comes back with
  200 as it is, and it is not the canonical envelope.
\<close>

theorem serverless_envelope_counterexample:
  "fst (handler test_config test_runtime (mock_host token_reply (text_reply ''Hello''))
          (post_message (JStr ''hi'')))
     = \<lparr>status = 200,
        json = JObj [(''results'', JArr [JObj [(''generated_text'', JStr ''Hello'')]])]\<rparr>
   \<and> \<not> is_ChatResponse (JObj [(''results'', JArr [JObj [(''generated_text'', JStr ''Hello'')]])])"
  by (simp add: handler_def relay_def handler_try_def post_message_def axios_post_def is_2xx_def
        mock_host_def token_reply_def text_reply_def token_request_def scoring_request_def
        IAM_URL_def SCORING_URL_def test_runtime_def is_ChatResponse_def envelope_content_def)

text \<open>
  C2, as the code has it.  On the unrecognized shape \<^verbatim>\<open>{}\<close>, and on every reply whose
  extracted text is empty, the normalizer of the Express route returns the envelope of
  its fallback string, which reads \<^verbatim>\<open>I'm sorry, I couldn't generate a response. Please try again.\<close>
\<close>

theorem normalizer_fallback:
  "normalize rt (JObj []) = Inr (ChatResponse fallback_text)
   \<and> (extract_text rt d = Inr [] \<longrightarrow> normalize rt d = Inr (ChatResponse fallback_text))
   \<and> (listed_shape d
       \<and> (case generated_text d of None \<Rightarrow> True | Some g \<Rightarrow> js_trim (strip_prompt g) = [])
       \<longrightarrow> normalize rt d = Inr (ChatResponse fallback_text))"
proof (intro conjI impI)
  show "normalize rt (JObj []) = Inr (ChatResponse fallback_text)"
    by (simp add: normalize_def extract_text_def formattedResponse_ChatResponse)
next
  assume "extract_text rt d = Inr []"
  then show "normalize rt d = Inr (ChatResponse fallback_text)"
    by (simp add: normalize_def formattedResponse_ChatResponse)
next
  assume a: "listed_shape d
       \<and> (case generated_text d of None \<Rightarrow> True | Some g \<Rightarrow> js_trim (strip_prompt g) = [])"
  then have "extract_text rt d = Inr []"
    by (auto simp: extract_text_listed_shape split: option.splits)
  then show "normalize rt d = Inr (ChatResponse fallback_text)"
    by (simp add: normalize_def formattedResponse_ChatResponse)
qed

text \<open>
  The theorem at a reply whose text is two spaces: trimmed, it is empty.
\<close>

theorem normalizer_fallback_witness:
  "extract_text test_runtime (JObj [(''results'', JArr [JObj [(''generated_text'', JStr ''  '')]])]) = Inr []
   \<and> normalize test_runtime (JObj [(''results'', JArr [JObj [(''generated_text'', JStr ''  '')]])])
       = Inr (ChatResponse fallback_text)"
  using normalizer_fallback
          [where rt = test_runtime
             and d = "JObj [(''results'', JArr [JObj [(''generated_text'', JStr ''  '')]])]"]
  by (simp add: extract_text_def index_of_key_zero strip_prompt_def js_trim_def is_space_def)

text \<open>
  C2 as stated fails on \<^verbatim>\<open>{}\<close>: the content is not the string the specification quotes.
\<close>

theorem spec_fallback_counterexample:
  "normalize test_runtime (JObj []) \<noteq> Inr (ChatResponse spec_fallback_text)"
  by (simp add: normalize_def extract_text_def formattedResponse_def ChatResponse_def
        fallback_text_def spec_fallback_text_def)

text \<open>
  The other half of C2 on the code.  The expression \<^verbatim>\<open>/^Human:.*?Assistant:\s*/\<close> has no
  flag that lets \<^verbatim>\<open>.\<close> match a line break, so the echoed prompt of the example, which
  has two of them before the marker (as the prompt the route sends has), is not stripped;
  on one line it is.
\<close>

lemma multiline_prompt_not_stripped:
  "normalize test_runtime
     (JObj [(''results'',
             JArr [JObj [(''generated_text'',
                          JStr ''Human: X\<newline>\<newline>Assistant: Y'')]])])
   = Inr (ChatResponse ''Human: X\<newline>\<newline>Assistant: Y'')"
  by (simp add: normalize_def extract_text_def index_of_key_zero strip_prompt_def
        is_line_terminator_def js_trim_def is_space_def formattedResponse_def ChatResponse_def)

lemma one_line_prompt_stripped:
  "normalize test_runtime
     (JObj [(''results'',
             JArr [JObj [(''generated_text'', JStr ''Human: X Assistant: Y'')]])])
   = Inr (ChatResponse ''Y'')"
  by (simp add: normalize_def extract_text_def index_of_key_zero strip_prompt_def
        is_line_terminator_def js_trim_def is_space_def formattedResponse_def ChatResponse_def)

text \<open>
  C3, as the code has it.  A request whose message is the empty string is answered with
  400, whatever the configuration, and no outbound call is made: by the Express route,
  and by the serverless handler when the method is POST.
\<close>

theorem empty_message_rejected:
  assumes "js_get (body req) ''message'' = Inr (JStr [])"
  shows "express_chat cfg rt h req
           = (\<lparr>status = 400, json = error_body ''Message cannot be empty.''\<rparr>, [])
       \<and> (method req = ''POST'' \<longrightarrow>
            handler cfg rt h req
              = (\<lparr>status = 400, json = error_body ''Message cannot be empty.''\<rparr>, [])
          \<and> handler_exports cfg rt h req
              = (\<lparr>status = 400, json = error_body ''Message cannot be empty.''\<rparr>, []))"
  using assms
  by (simp add: express_chat_def chat_try_def handler_def handler_exports_def relay_def
                handler_try_def)

text \<open>
  The theorem at an empty message, with the API key absent.
\<close>

theorem empty_message_rejected_witness:
  "js_get (body (post_message (JStr []))) ''message'' = Inr (JStr [])
   \<and> method (post_message (JStr [])) = ''POST''
   \<and> express_chat no_key_config test_runtime (mock_host token_reply (text_reply ''Hello''))
        (post_message (JStr []))
       = (\<lparr>status = 400, json = error_body ''Message cannot be empty.''\<rparr>, [])
   \<and> handler no_key_config test_runtime (mock_host token_reply (text_reply ''Hello''))
        (post_message (JStr []))
       = (\<lparr>status = 400, json = error_body ''Message cannot be empty.''\<rparr>, [])"
  using empty_message_rejected
          [of "post_message (JStr [])" no_key_config test_runtime
              "mock_host token_reply (text_reply ''Hello'')"]
  by (simp add: post_message_def)

text \<open>
  C3 as stated fails on a message of one space: the check is \<^verbatim>\<open>!userMessage\<close>, which
  the string passes; the Express route calls both upstreams and answers 200.
\<close>

theorem whitespace_message_counterexample:
  "express_chat test_config test_runtime (mock_host token_reply (text_reply ''Hello''))
     (post_message (JStr '' ''))
   = (\<lparr>status = 200, json = ChatResponse ''Hello''\<rparr>,
      [iam_request test_config, generation_request test_config '' '' ''T''])"
  by (simp add: express_chat_def chat_try_def post_message_def test_config_def env_truthy_def
        getIAMToken_def axios_post_def is_2xx_def mock_host_def token_reply_def text_reply_def
        iam_request_def generation_request_def IAM_URL_def WATSONX_URL_def
        normalize_def extract_text_def index_of_key_zero strip_prompt_def js_trim_def
        is_space_def formattedResponse_def ChatResponse_def test_runtime_def)

text \<open>
  C4, as the code has it.  Every response that is not a 200 is one JSON body with an
  \<open>error\<close> field.  When the inference call fails, the Express route answers by the kind
  of failure: with the upstream status and the upstream body as \<open>details\<close> when the
  reply was outside 2xx; with 500 and a connectivity hint when no reply came; with 500 and
  the error message as \<open>details\<close> when the request was never sent.  The serverless
  handler, in both module forms, answers every failure with 500 and one generic body.
\<close>

theorem failure_taxonomy:
  "(status (fst (express_chat cfg rt h req)) \<noteq> 200 \<longrightarrow>
      (\<exists>msg. js_get (json (fst (express_chat cfg rt h req))) ''error'' = Inr (JStr msg)))
   \<and> (status (fst (handler cfg rt h req)) \<noteq> 200 \<longrightarrow>
      (\<exists>msg. json (fst (handler cfg rt h req)) = error_body msg))
   \<and> (status (fst (handler_exports cfg rt h req)) \<noteq> 200 \<longrightarrow>
      (\<exists>msg. json (fst (handler_exports cfg rt h req)) = error_body msg))
   \<and> (js_get (body req) ''message'' = Inr (JStr m) \<and> m \<noteq> []
       \<and> env_truthy (IBM_API_KEY cfg) \<and> env_truthy (PROJECT_ID cfg)
       \<and> h (iam_request cfg) = Responded st0 (JObj tk) \<and> is_2xx st0
       \<and> map_of tk ''access_token'' = Some (JStr tok)
       \<and> h (generation_request cfg m tok) = Responded st d \<and> \<not> is_2xx st \<longrightarrow>
         express_chat cfg rt h req
           = (\<lparr>status = st,
               json = JObj [(''error'', JStr ''Failed to get response from AI''),
                            (''details'', d),
                            (''status'', JNum (of_nat st))]\<rparr>,
              [iam_request cfg, generation_request cfg m tok]))
   \<and> (js_get (body req) ''message'' = Inr (JStr m) \<and> m \<noteq> []
       \<and> env_truthy (IBM_API_KEY cfg) \<and> env_truthy (PROJECT_ID cfg)
       \<and> h (iam_request cfg) = Responded st0 (JObj tk) \<and> is_2xx st0
       \<and> map_of tk ''access_token'' = Some (JStr tok)
       \<and> h (generation_request cfg m tok) = NoReply e \<longrightarrow>
         express_chat cfg rt h req
           = (\<lparr>status = 500,
               json = JObj [(''error'',
                               JStr ''Connection timeout - unable to reach IBM Watsonx.ai service''),
                            (''suggestion'',
                               JStr ''Please check your internet connection and try again'')]\<rparr>,
              [iam_request cfg, generation_request cfg m tok]))
   \<and> (js_get (body req) ''message'' = Inr (JStr m) \<and> m \<noteq> []
       \<and> env_truthy (IBM_API_KEY cfg) \<and> env_truthy (PROJECT_ID cfg)
       \<and> h (iam_request cfg) = Responded st0 (JObj tk) \<and> is_2xx st0
       \<and> map_of tk ''access_token'' = Some (JStr tok)
       \<and> h (generation_request cfg m tok) = NotSent e \<longrightarrow>
         express_chat cfg rt h req
           = (\<lparr>status = 500,
               json = JObj [(''error'', JStr ''Failed to set up request to AI service''),
                            (''details'', JStr e)]\<rparr>,
              [iam_request cfg, generation_request cfg m tok]))
   \<and> (method req = ''POST'' \<and> js_get (body req) ''message'' = Inr (JStr m) \<and> m \<noteq> []
       \<and> h (token_request cfg) = Responded st0 (JObj tk) \<and> is_2xx st0
       \<and> map_of tk ''access_token'' = Some (JStr tok)
       \<and> failed (h (scoring_request SCORING_URL cfg (JStr m) tok)) \<longrightarrow>
         handler cfg rt h req
           = (\<lparr>status = 500, json = error_body ''An internal server error occurred.''\<rparr>,
              [token_request cfg, scoring_request SCORING_URL cfg (JStr m) tok]))
   \<and> (method req = ''POST'' \<and> js_get (body req) ''message'' = Inr (JStr m) \<and> m \<noteq> []
       \<and> h (token_request cfg) = Responded st0 (JObj tk) \<and> is_2xx st0
       \<and> map_of tk ''access_token'' = Some (JStr tok)
       \<and> failed (h (scoring_request SCORING_URL_exports cfg (JStr m) tok)) \<longrightarrow>
         handler_exports cfg rt h req
           = (\<lparr>status = 500, json = error_body ''An internal server error occurred.''\<rparr>,
              [token_request cfg, scoring_request SCORING_URL_exports cfg (JStr m) tok]))"
proof (intro conjI impI, goal_cases)
  case 1
  then show ?case by (rule express_chat_error_field)
next
  case 2
  then show ?case by (simp add: handler_def relay_error_body)
next
  case 3
  then show ?case by (simp add: handler_exports_def relay_error_body)
next
  case 4
  then have "axios_post h (generation_request cfg m tok) = Inl (AxiosResponse st d)"
    by (simp add: axios_post_def)
  with 4 show ?case
    using express_inference_error [of req m cfg h st0 tk tok "AxiosResponse st d" rt] by simp
next
  case 5
  then have "axios_post h (generation_request cfg m tok) = Inl (AxiosRequest e)"
    by (simp add: axios_post_def)
  with 5 show ?case
    using express_inference_error [of req m cfg h st0 tk tok "AxiosRequest e" rt] by simp
next
  case 6
  then have "axios_post h (generation_request cfg m tok) = Inl (AxiosSetup e)"
    by (simp add: axios_post_def)
  with 6 show ?case
    using express_inference_error [of req m cfg h st0 tk tok "AxiosSetup e" rt] by simp
next
  case 7
  then show ?case by (simp add: handler_def relay_inference_error)
next
  case 8
  then show ?case by (simp add: handler_exports_def relay_inference_error)
qed

text \<open>
  The theorem at an inference reply of 429: the Express route passes the status and the
  body on, the serverless handler answers 500.
\<close>

theorem failure_taxonomy_witness:
  "express_chat test_config test_runtime
        (mock_host token_reply (Responded 429 (JObj [(''error'', JStr ''rate limit'')])))
        (post_message (JStr ''hi''))
       = (\<lparr>status = 429,
           json = JObj [(''error'', JStr ''Failed to get response from AI''),
                        (''details'', JObj [(''error'', JStr ''rate limit'')]),
                        (''status'', JNum 429)]\<rparr>,
          [iam_request test_config, generation_request test_config ''hi'' ''T''])
   \<and> handler test_config test_runtime
        (mock_host token_reply (Responded 429 (JObj [(''error'', JStr ''rate limit'')])))
        (post_message (JStr ''hi''))
       = (\<lparr>status = 500, json = error_body ''An internal server error occurred.''\<rparr>,
          [token_request test_config, scoring_request SCORING_URL test_config (JStr ''hi'') ''T''])"
  using failure_taxonomy
          [where req = "post_message (JStr ''hi'')" and m = "''hi''" and cfg = test_config
             and rt = test_runtime
             and h = "mock_host token_reply (Responded 429 (JObj [(''error'', JStr ''rate limit'')]))"
             and ?st0.0 = 200 and tk = "[(''access_token'', JStr ''T'')]" and tok = "''T''"
             and st = 429 and d = "JObj [(''error'', JStr ''rate limit'')]"]
  by (simp add: post_message_def test_config_def env_truthy_def mock_host_def token_reply_def
        iam_request_def token_request_def generation_request_def scoring_request_def
        IAM_URL_def WATSONX_URL_def SCORING_URL_def is_2xx_def)

text \<open>
  C4 as stated fails on the serverless handler: an inference reply of 429 is answered
  with 500 and the generic body, which carries neither the upstream status nor its detail.
\<close>

theorem serverless_status_counterexample:
  "handler test_config test_runtime
     (mock_host token_reply (Responded 429 (JObj [(''error'', JStr ''rate limit'')])))
     (post_message (JStr ''hi''))
   = (\<lparr>status = 500, json = error_body ''An internal server error occurred.''\<rparr>,
      [token_request test_config, scoring_request SCORING_URL test_config (JStr ''hi'') ''T''])"
  by (simp add: handler_def relay_def handler_try_def post_message_def axios_post_def is_2xx_def
        mock_host_def token_reply_def token_request_def scoring_request_def
        IAM_URL_def SCORING_URL_def test_runtime_def)

text \<open>
  C5, as the code has it.  When the token exchange of the Express route fails, the route
  answers with the status of the identity endpoint if it replied outside 2xx, and with 500
  if it did not reply or the request was never sent; the only outbound call is the token
  exchange, whose address is not the inference address.
\<close>

theorem token_failure_stops_pipeline:
  assumes "js_get (body req) ''message'' = Inr v" and "truthy v"
    and "env_truthy (IBM_API_KEY cfg)" and "env_truthy (PROJECT_ID cfg)"
  shows "(h (iam_request cfg) = Responded st d \<and> \<not> is_2xx st \<longrightarrow>
            express_chat cfg rt h req
              = (\<lparr>status = st,
                  json = JObj [(''error'', JStr ''Failed to get response from AI''),
                               (''details'', d),
                               (''status'', JNum (of_nat st))]\<rparr>,
                 [iam_request cfg]))
       \<and> (h (iam_request cfg) = NoReply m \<longrightarrow>
            express_chat cfg rt h req
              = (\<lparr>status = 500,
                  json = JObj [(''error'',
                                  JStr ''Connection timeout - unable to reach IBM Watsonx.ai service''),
                               (''suggestion'',
                                  JStr ''Please check your internet connection and try again'')]\<rparr>,
                 [iam_request cfg]))
       \<and> (h (iam_request cfg) = NotSent m \<longrightarrow>
            express_chat cfg rt h req
              = (\<lparr>status = 500,
                  json = JObj [(''error'', JStr ''Failed to set up request to AI service''),
                               (''details'', JStr m)]\<rparr>,
                 [iam_request cfg]))
       \<and> url (iam_request cfg) \<noteq> WATSONX_URL"
  using assms
  by (simp add: express_chat_def chat_try_def getIAMToken_def axios_post_def is_2xx_def
                iam_request_def IAM_URL_def WATSONX_URL_def)

text \<open>
  The theorem at an identity endpoint that does not reply, and at one that replies 503.
\<close>

theorem token_failure_stops_pipeline_witness:
  "express_chat test_config test_runtime
        (mock_host (NoReply ''timeout of 15000ms exceeded'') (text_reply ''Hello''))
        (post_message (JStr ''hi''))
       = (\<lparr>status = 500,
           json = JObj [(''error'',
                           JStr ''Connection timeout - unable to reach IBM Watsonx.ai service''),
                        (''suggestion'',
                           JStr ''Please check your internet connection and try again'')]\<rparr>,
          [iam_request test_config])
   \<and> express_chat test_config test_runtime
        (mock_host (Responded 503 JNull) (text_reply ''Hello''))
        (post_message (JStr ''hi''))
       = (\<lparr>status = 503,
           json = JObj [(''error'', JStr ''Failed to get response from AI''),
                        (''details'', JNull),
                        (''status'', JNum 503)]\<rparr>,
          [iam_request test_config])"
  using token_failure_stops_pipeline
          [where req = "post_message (JStr ''hi'')" and v = "JStr ''hi''"
             and cfg = test_config and rt = test_runtime
             and h = "mock_host (NoReply ''timeout of 15000ms exceeded'') (text_reply ''Hello'')"
             and m = "''timeout of 15000ms exceeded''"]
        token_failure_stops_pipeline
          [where req = "post_message (JStr ''hi'')" and v = "JStr ''hi''"
             and cfg = test_config and rt = test_runtime
             and h = "mock_host (Responded 503 JNull) (text_reply ''Hello'')"
             and st = 503 and d = JNull]
  by (simp add: post_message_def test_config_def env_truthy_def mock_host_def iam_request_def
        is_2xx_def)

text \<open>
  C5 as stated fails on a token exchange answered with 401: the Express route answers 401,
  not 500.
\<close>

theorem token_failure_status_counterexample:
  "express_chat test_config test_runtime
     (mock_host (Responded 401 (JObj [(''errorCode'', JStr ''BXNIM0415E'')])) (text_reply ''Hello''))
     (post_message (JStr ''hi''))
   = (\<lparr>status = 401,
       json = JObj [(''error'', JStr ''Failed to get response from AI''),
                    (''details'', JObj [(''errorCode'', JStr ''BXNIM0415E'')]),
                    (''status'', JNum 401)]\<rparr>,
      [iam_request test_config])"
  by (simp add: express_chat_def chat_try_def getIAMToken_def axios_post_def is_2xx_def mock_host_def
        post_message_def test_config_def env_truthy_def iam_request_def)

text \<open>
  C6, as the code has it.  In the Express route, a request with a truthy message is
  answered with 500 and a configuration-error body when the API key is absent or empty,
  and when the key is present and the project id is absent or empty; no outbound call is
  made.
\<close>

theorem missing_configuration_rejected:
  assumes "js_get (body req) ''message'' = Inr v" and "truthy v"
  shows "(\<not> env_truthy (IBM_API_KEY cfg) \<longrightarrow>
            express_chat cfg rt h req
              = (\<lparr>status = 500,
                  json = error_body ''Server configuration error: API key missing''\<rparr>, []))
       \<and> (env_truthy (IBM_API_KEY cfg) \<and> \<not> env_truthy (PROJECT_ID cfg) \<longrightarrow>
            express_chat cfg rt h req
              = (\<lparr>status = 500,
                  json = error_body (''Server configuration error: Project ID missing. ''
                                     @ ''Please add PROJECT_ID to your .env file'')\<rparr>, []))"
  using assms by (simp add: express_chat_def chat_try_def)

text \<open>The theorem at a configuration without the API key.\<close>

theorem missing_configuration_rejected_witness:
  "js_get (body (post_message (JStr ''hi''))) ''message'' = Inr (JStr ''hi'')
   \<and> truthy (JStr ''hi'')
   \<and> \<not> env_truthy (IBM_API_KEY no_key_config)
   \<and> express_chat no_key_config test_runtime (mock_host token_reply (text_reply ''Hello''))
        (post_message (JStr ''hi''))
       = (\<lparr>status = 500,
           json = error_body ''Server configuration error: API key missing''\<rparr>, [])"
  using missing_configuration_rejected
          [where req = "post_message (JStr ''hi'')" and v = "JStr ''hi''"
             and cfg = no_key_config and rt = test_runtime
             and h = "mock_host token_reply (text_reply ''Hello'')"]
  by (simp add: post_message_def no_key_config_def env_truthy_def)

text \<open>
  C6 as stated fails on the serverless handler, which reads the two values and checks
  neither: without the API key it still calls the identity endpoint, with the key printed
  as \<open>undefined\<close>, and answers the rejection of that call with the generic body.
\<close>

theorem serverless_configuration_counterexample:
  "handler no_key_config test_runtime
     (mock_host (Responded 400 (JObj [(''errorMessage'', JStr ''Provided API key could not be found.'')]))
                (text_reply ''Hello''))
     (post_message (JStr ''hi''))
   = (\<lparr>status = 500, json = error_body ''An internal server error occurred.''\<rparr>,
      [\<lparr>url = IAM_URL,
        data = JStr ''grant_type=urn:ibm:params:oauth:grant-type:apikey&apikey=undefined'',
        headers = [(''Content-Type'', ''application/x-www-form-urlencoded'')],
        timeout = None\<rparr>])"
  by (simp add: handler_def relay_def handler_try_def post_message_def no_key_config_def
        axios_post_def is_2xx_def mock_host_def token_request_def iam_form_def env_string_def)

text \<open>
  C7, as the code has it.  A request whose method is not POST is answered with 405 by the
  serverless handler, in both of its module forms.  server.js has no 405: a request for
  /api/chat with another method never reaches the callback of \<^verbatim>\<open>app.post\<close> and is
  answered by the static middleware (a GET or HEAD for which it finds a file), by the last
  \<^verbatim>\<open>app.use\<close> (OPTIONS, with 200) or by Express (404).  In all three relays the list of
  outbound calls is empty: neither the token exchange nor the inference call is attempted.
\<close>

theorem non_post_method_not_allowed:
  assumes "method req \<noteq> ''POST''"
  shows "handler cfg rt h req = (\<lparr>status = 405, json = error_body ''Method Not Allowed''\<rparr>, [])
       \<and> handler_exports cfg rt h req
           = (\<lparr>status = 405, json = error_body ''Method Not Allowed''\<rparr>, [])
       \<and> server_api_chat cfg rt h static_hit req
           = (if (method req = ''GET'' \<or> method req = ''HEAD'') \<and> static_hit then StaticFile
              else if method req = ''OPTIONS'' then SendStatus 200
              else FinalHandler 404, [])
       \<and> served_status (fst (server_api_chat cfg rt h static_hit req)) \<noteq> Some 405"
  using assms
  by (simp add: handler_def handler_exports_def relay_def server_api_chat_def)

text \<open>
  The theorem at a GET request, with no file for the path under \<^verbatim>\<open>public\<close>.
\<close>

theorem non_post_method_not_allowed_witness:
  "method \<lparr>method = ''GET'', body = JObj [(''message'', JStr ''hi'')]\<rparr> \<noteq> ''POST''
   \<and> handler test_config test_runtime (mock_host token_reply (text_reply ''Hello''))
         \<lparr>method = ''GET'', body = JObj [(''message'', JStr ''hi'')]\<rparr>
       = (\<lparr>status = 405, json = error_body ''Method Not Allowed''\<rparr>, [])
   \<and> handler_exports test_config test_runtime (mock_host token_reply (text_reply ''Hello''))
         \<lparr>method = ''GET'', body = JObj [(''message'', JStr ''hi'')]\<rparr>
       = (\<lparr>status = 405, json = error_body ''Method Not Allowed''\<rparr>, [])
   \<and> server_api_chat test_config test_runtime (mock_host token_reply (text_reply ''Hello''))
         False \<lparr>method = ''GET'', body = JObj [(''message'', JStr ''hi'')]\<rparr>
       = (FinalHandler 404, [])"
  using non_post_method_not_allowed
          [where req = "\<lparr>method = ''GET'', body = JObj [(''message'', JStr ''hi'')]\<rparr>"
             and cfg = test_config and rt = test_runtime
             and h = "mock_host token_reply (text_reply ''Hello'')" and static_hit = False]
  by simp

text \<open>
  C7 as stated fails on server.js: a PUT for /api/chat is answered with 404, not 405.
\<close>

theorem express_method_counterexample:
  "server_api_chat test_config test_runtime (mock_host token_reply (text_reply ''Hello''))
     False \<lparr>method = ''PUT'', body = JObj [(''message'', JStr ''hi'')]\<rparr>
     = (FinalHandler 404, [])
   \<and> served_status (FinalHandler 404) = Some 404"
  by (simp add: server_api_chat_def)



text \<open>
  C9 on the code.  A reply whose first result has no \<open>generated_text\<close> is a reply
  with a missing \<open>generated_text\<close>.  The route reads the field and calls
  \<^verbatim>\<open>.replace\<close> on it without a test (the routes chat-v2 and chat-v3 of the same file
  read it with \<^verbatim>\<open>?.\<close> and fall back): the call throws, the catch takes the error for a
  request that could not be set up, and the answer is a 500 where the claim has a 200 with
  the fallback string.
\<close>

theorem missing_generated_text_run:
  "express_chat test_config test_runtime
     (mock_host token_reply (Responded 200 (JObj [(''results'', JArr [JObj []])])))
     (post_message (JStr ''hi''))
   = (\<lparr>status = 500,
       json = JObj [(''error'', JStr ''Failed to set up request to AI service''),
                    (''details'',
                       JStr (''Cannot read properties of undefined (reading ''
                             @ [CHR 0x27] @ ''replace'' @ [CHR 0x27] @ '')''))]\<rparr>,
      [iam_request test_config, generation_request test_config ''hi'' ''T''])"
  by (simp add: express_chat_def chat_try_def post_message_def test_config_def env_truthy_def
        getIAMToken_def axios_post_def is_2xx_def mock_host_def token_reply_def
        iam_request_def generation_request_def IAM_URL_def WATSONX_URL_def
        normalize_def extract_text_def index_of_key_zero quote_def test_runtime_def)

text \<open>
  What does hold of C9: in every 200 response of the Express route the body is the
  canonical envelope of a non-empty content; and when the inference reply behind a 200
  has no string at \<open>results[0].generated_text\<close>, or the empty string, the content is the
  fallback string.
\<close>

theorem success_content_never_empty:
  assumes "status (fst (express_chat cfg rt h req)) = 200"
  shows "\<exists>c. json (fst (express_chat cfg rt h req)) = ChatResponse c \<and> c \<noteq> []
           \<and> (\<forall>rq st d. rq \<in> set (snd (express_chat cfg rt h req)) \<and> url rq = WATSONX_URL
                  \<and> h rq = Responded st d
                  \<and> (generated_text d = None \<or> generated_text d = Some [])
                \<longrightarrow> c = fallback_text)"
proof (cases "chat_try cfg rt h req")
  case (Pair outcome calls)
  show ?thesis
  proof (cases outcome)
    case (Inl e)
    with Pair have "\<not> is_2xx (status (chat_catch e))"
      by (simp add: chat_try_error_status)
    with assms Pair Inl show ?thesis
      by (simp add: express_chat_def is_2xx_def)
  next
    case (Inr res)
    with assms Pair have res: "express_chat cfg rt h req = (res, calls)" and "status res = 200"
      by (simp_all add: express_chat_def)
    with Pair Inr obtain m tok st d t where
      calls: "calls = [iam_request cfg, generation_request cfg m tok]" and
      reply: "h (generation_request cfg m tok) = Responded st d" and
      t: "extract_text rt d = Inr t" and
      r: "res = \<lparr>status = 200, json = formattedResponse t\<rparr>"
      using chat_try_success [of cfg rt h req res calls] by auto
    let ?c = "if t = [] then fallback_text else t"
    have "json (fst (express_chat cfg rt h req)) = ChatResponse ?c"
      using res r by (simp add: formattedResponse_ChatResponse)
    moreover have "?c \<noteq> []"
      by (simp add: fallback_text_not_empty)
    moreover have "?c = fallback_text"
      if "rq \<in> set (snd (express_chat cfg rt h req))" and "url rq = WATSONX_URL"
        and "h rq = Responded st' d'"
        and "generated_text d' = None \<or> generated_text d' = Some []" for rq st' d'
    proof -
      from that(1,2) res calls have "rq = generation_request cfg m tok"
        by (auto simp: iam_request_def IAM_URL_def WATSONX_URL_def)
      with that(3) reply have "d' = d" by simp
      with that(4) t extract_text_generated [of rt d t] show ?thesis
        by auto
    qed
    ultimately show ?thesis by blast
  qed
qed

text \<open>
  The theorem at an inference reply whose \<open>generated_text\<close> is the empty string.
\<close>

theorem success_content_never_empty_witness:
  "status (fst (express_chat test_config test_runtime (mock_host token_reply (text_reply []))
                  (post_message (JStr ''hi'')))) = 200
   \<and> json (fst (express_chat test_config test_runtime (mock_host token_reply (text_reply []))
                  (post_message (JStr ''hi'')))) = ChatResponse fallback_text"
proof -
  let ?h = "mock_host token_reply (text_reply [])"
  let ?R = "express_chat test_config test_runtime ?h (post_message (JStr ''hi''))"
  have run: "?R = (\<lparr>status = 200, json = ChatResponse fallback_text\<rparr>,
                   [iam_request test_config, generation_request test_config ''hi'' ''T''])"
    by (simp add: express_chat_def chat_try_def post_message_def test_config_def env_truthy_def
        getIAMToken_def axios_post_def is_2xx_def mock_host_def token_reply_def text_reply_def
        iam_request_def generation_request_def IAM_URL_def WATSONX_URL_def
        normalize_def extract_text_def index_of_key_zero strip_prompt_def js_trim_def
        formattedResponse_ChatResponse test_runtime_def)
  then have s: "status (fst ?R) = 200" by simp
  from success_content_never_empty [OF s] obtain c where
    c: "json (fst ?R) = ChatResponse c" and
    imp: "\<forall>rq st d. rq \<in> set (snd ?R) \<and> url rq = WATSONX_URL \<and> ?h rq = Responded st d
            \<and> (generated_text d = None \<or> generated_text d = Some []) \<longrightarrow> c = fallback_text"
    by blast
  have "generation_request test_config ''hi'' ''T'' \<in> set (snd ?R)"
    by (simp add: run)
  moreover have "url (generation_request test_config ''hi'' ''T'') = WATSONX_URL"
    by (simp add: generation_request_def)
  moreover have "?h (generation_request test_config ''hi'' ''T'')
      = Responded 200 (JObj [(''results'', JArr [JObj [(''generated_text'', JStr [])]])])"
    by (simp add: mock_host_def generation_request_def text_reply_def IAM_URL_def WATSONX_URL_def)
  moreover have "generated_text (JObj [(''results'', JArr [JObj [(''generated_text'', JStr [])]])])
      = Some []"
    by (simp add: generated_text_def index_of_key_zero)
  ultimately have "c = fallback_text"
    using imp by blast
  with s c show ?thesis by simp
qed

text \<open>
  C10, as the code has it.  The check of the message is truthiness.  A falsy value
  (\<open>falsy_values\<close> lists them: a missing field, \<^verbatim>\<open>null\<close>, \<^verbatim>\<open>false\<close>, 0, the empty
  string) is answered with 400, by the Express route and by the serverless handler on POST.
  A truthy value of any type passes.  The serverless handler, once it has a token, sends
  the value itself as the content of the one message of its payload.  The Express route,
  once it has a token, converts the value to a string, as the template literal of its
  prompt does, and sends the prompt with that string in it; when the conversion throws, it
  answers 500 and the inference call is not made.
\<close>

theorem validation_is_truthiness:
  assumes "js_get (body req) ''message'' = Inr v"
  shows "(\<not> truthy v \<longrightarrow>
            express_chat cfg rt h req
              = (\<lparr>status = 400, json = error_body ''Message cannot be empty.''\<rparr>, [])
          \<and> (method req = ''POST'' \<longrightarrow>
                handler cfg rt h req
                  = (\<lparr>status = 400, json = error_body ''Message cannot be empty.''\<rparr>, [])))
       \<and> (truthy v \<and> env_truthy (IBM_API_KEY cfg) \<and> env_truthy (PROJECT_ID cfg) \<longrightarrow>
            hd (snd (express_chat cfg rt h req)) = iam_request cfg
          \<and> snd (express_chat cfg rt h req) \<noteq> [])
       \<and> (truthy v \<and> method req = ''POST'' \<and> h (token_request cfg) = Responded st (JObj tk)
          \<and> is_2xx st \<and> map_of tk ''access_token'' = Some (JStr tok) \<longrightarrow>
            snd (handler cfg rt h req)
              = [token_request cfg,
                 \<lparr>url = SCORING_URL,
                  data = JObj [(''project_id'', env_value (PROJECT_ID cfg)),
                               (''messages'',
                                  JArr [JObj [(''content'', v), (''role'', JStr ''user'')]])],
                  headers = [(''Authorization'', ''Bearer '' @ tok),
                             (''Content-Type'', ''application/json'')],
                  timeout = None\<rparr>])
       \<and> (truthy v \<and> env_truthy (IBM_API_KEY cfg) \<and> env_truthy (PROJECT_ID cfg)
          \<and> h (iam_request cfg) = Responded st (JObj tk)
          \<and> is_2xx st \<and> map_of tk ''access_token'' = Some (JStr tok)
          \<and> js_to_string rt v = Inr s \<longrightarrow>
            snd (express_chat cfg rt h req)
              = [iam_request cfg,
                 \<lparr>url = WATSONX_URL,
                  data = JObj [(''input'',
                                  JStr (''Human: '' @ s @ [CHR 0x0A, CHR 0x0A]
                                        @ ''Assistant: I'' @ [CHR 0x27]
                                        @ ''m LearnMate, your AI learning coach. I''
                                        @ [CHR 0x27]
                                        @ ''m here to help you with educational planning, ''
                                        @ ''finding resources, and answering questions ''
                                        @ ''about learning and development.'')),
                               (''parameters'',
                                  JObj [(''decoding_method'', JStr ''greedy''),
                                        (''max_new_tokens'', JNum 500),
                                        (''temperature'', JNum (7 / 10)),
                                        (''stop_sequences'',
                                           JArr [JStr ''Human:'',
                                                 JStr ([CHR 0x0A, CHR 0x0A] @ ''Human:'')])]),
                               (''model_id'', JStr ''ibm/granite-3-3-8b-instruct''),
                               (''project_id'', env_value (PROJECT_ID cfg))],
                  headers = [(''Authorization'', ''Bearer '' @ tok),
                             (''Content-Type'', ''application/json''),
                             (''Accept'', ''application/json'')],
                  timeout = Some 45000\<rparr>])
       \<and> (truthy v \<and> env_truthy (IBM_API_KEY cfg) \<and> env_truthy (PROJECT_ID cfg)
          \<and> h (iam_request cfg) = Responded st (JObj tk)
          \<and> is_2xx st \<and> map_of tk ''access_token'' = Some (JStr tok)
          \<and> js_to_string rt v = Inl e \<longrightarrow>
            status (fst (express_chat cfg rt h req)) = 500
          \<and> snd (express_chat cfg rt h req) = [iam_request cfg])"
proof (intro conjI impI, goal_cases)
  case 1
  with assms show ?case by (simp add: express_chat_def chat_try_def)
next
  case 2
  with assms show ?case
    by (simp add: handler_def relay_def handler_try_def)
next
  case 3
  with assms show ?case
    by (auto simp: express_chat_def chat_try_def getIAMToken_def split: sum.splits prod.splits)
next
  case 4
  with assms show ?case
    by (auto simp: express_chat_def chat_try_def getIAMToken_def split: sum.splits prod.splits)
next
  case 5
  with assms show ?case
    by (simp add: handler_def relay_def handler_try_def axios_post_def scoring_request_def
             split: sum.splits)
next
  case 6
  with assms show ?case
    by (simp add: express_chat_def chat_try_def getIAMToken_def axios_post_def
                  generation_request_def generation_payload_def prompt_input_def
             split: sum.splits)
next
  case 7
  then obtain m where "e = TypeError m"
    using js_to_string_error(1) [of rt v e] by auto
  with 7 assms show ?case
    by (simp add: express_chat_def chat_try_def getIAMToken_def axios_post_def)
next
  case 8
  with assms show ?case
    by (simp add: express_chat_def chat_try_def getIAMToken_def axios_post_def)
qed

text \<open>
  The theorem at the message 0, which is rejected, and at an object, which both relays
  let pass.
\<close>

theorem validation_is_truthiness_witness:
  "express_chat test_config test_runtime (mock_host token_reply (text_reply ''Hello''))
        (post_message (JNum 0))
       = (\<lparr>status = 400, json = error_body ''Message cannot be empty.''\<rparr>, [])
   \<and> handler test_config test_runtime (mock_host token_reply (text_reply ''Hello''))
        (post_message (JNum 0))
       = (\<lparr>status = 400, json = error_body ''Message cannot be empty.''\<rparr>, [])
   \<and> hd (snd (express_chat test_config test_runtime
                 (mock_host token_reply (text_reply ''Hello''))
                 (post_message (JObj [(''text'', JStr ''hi'')]))))
       = iam_request test_config
   \<and> snd (handler test_config test_runtime (mock_host token_reply (text_reply ''Hello''))
             (post_message (JObj [(''text'', JStr ''hi'')])))
       = [token_request test_config,
          \<lparr>url = SCORING_URL,
           data = JObj [(''project_id'', JStr ''project''),
                        (''messages'',
                           JArr [JObj [(''content'', JObj [(''text'', JStr ''hi'')]),
                                       (''role'', JStr ''user'')]])],
           headers = [(''Authorization'', ''Bearer T''),
                      (''Content-Type'', ''application/json'')],
           timeout = None\<rparr>]
   \<and> map url (snd (express_chat test_config test_runtime
                       (mock_host token_reply (text_reply ''Hello''))
                       (post_message (JObj [(''text'', JStr ''hi'')]))))
       = [IAM_URL, WATSONX_URL]"
  using validation_is_truthiness
          [where req = "post_message (JNum 0)" and v = "JNum 0"
             and cfg = test_config and rt = test_runtime
             and h = "mock_host token_reply (text_reply ''Hello'')"]
        validation_is_truthiness
          [where req = "post_message (JObj [(''text'', JStr ''hi'')])"
             and v = "JObj [(''text'', JStr ''hi'')]"
             and cfg = test_config and rt = test_runtime
             and h = "mock_host token_reply (text_reply ''Hello'')"
             and st = 200 and tk = "[(''access_token'', JStr ''T'')]" and tok = "''T''"
             and s = "''[object Object]''"]
  by (simp add: post_message_def test_config_def env_truthy_def env_value_def mock_host_def
        token_reply_def token_request_def iam_request_def is_2xx_def)

text \<open>
  C10 as stated fails on the Express route: an object passes the check, and what reaches
  the upstream payload is not the object but the text \<open>[object Object]\<close> inside the
  prompt.
\<close>

theorem express_payload_counterexample:
  "snd (express_chat test_config test_runtime (mock_host token_reply (text_reply ''Hello''))
          (post_message (JObj [(''text'', JStr ''hi'')])))
     = [iam_request test_config, generation_request test_config ''[object Object]'' ''T'']
   \<and> js_get (data (generation_request test_config ''[object Object]'' ''T'')) ''input''
     = Inr (JStr (''Human: [object Object]'' @ [CHR 0x0A, CHR 0x0A]
                  @ ''Assistant: I'' @ [CHR 0x27]
                  @ ''m LearnMate, your AI learning coach. I'' @ [CHR 0x27]
                  @ ''m here to help you with educational planning, ''
                  @ ''finding resources, and answering questions ''
                  @ ''about learning and development.''))"
  by (simp add: express_chat_def chat_try_def post_message_def test_config_def env_truthy_def
        getIAMToken_def axios_post_def is_2xx_def mock_host_def token_reply_def text_reply_def
        iam_request_def generation_request_def generation_payload_def prompt_input_def
        IAM_URL_def WATSONX_URL_def normalize_def extract_text_def index_of_key_zero
        strip_prompt_def js_trim_def is_space_def test_runtime_def)

end
